theory Spec2Isabelle
  imports Main "HOL-Library.Log_Nat"
begin

section \<open>The JavaScript values the handlers compute with\<close>

text \<open>
  The handlers of \<^verbatim>\<open>server.js\<close> read JSON request bodies and route parameters and
  compute with a handful of JavaScript primitives. A field of a request body is a raw
  JSON value, or \<^verbatim>\<open>undefined\<close> when the body does not have it; a field of a stored
  document has the type its Mongoose schema path casts to (\<^verbatim>\<open>Number\<close> as an integer,
  \<^verbatim>\<open>String\<close> as a string) or is absent (\<open>None\<close>). A number computed inside a handler
  can also be \<^verbatim>\<open>NaN\<close>: \<^verbatim>\<open>parseInt\<close> of a string with no digits, \<^verbatim>\<open>undefined + n\<close> and
  \<^verbatim>\<open>Math.max(1, undefined)\<close>. JSON cannot carry \<^verbatim>\<open>NaN\<close>, and a \<^verbatim>\<open>Number\<close> path of a
  Mongoose document refuses it (the cast fails and \<^verbatim>\<open>save()\<close> rejects), so \<^verbatim>\<open>NaN\<close>
  never is a stored or a received value. Numbers are integers; fractional numbers and
  JSON \<^verbatim>\<open>null\<close> are not modelled. Where a cast or an operator of the library is not
  modelled, the handler's result is \<open>None\<close>: the model says nothing there.
\<close>

datatype jsnum = Num int | NaN

datatype jsval =
    JUndefined
  | JBool bool
  | JNum int
  | JStr string
  | JArr "jsval list"
  | JObj "(string \<times> jsval) list"

text \<open>The outcome of a Mongoose cast: the cast value, a \<^verbatim>\<open>CastError\<close>, or a case that is
  not modelled.\<close>

datatype 'a cast = Cast 'a | CastError | Unmodelled

text \<open>\<^verbatim>\<open>parseInt(string)\<close> with no radix, as ECMAScript defines it: leading white space is
  skipped, a sign is read, a prefix \<^verbatim>\<open>0x\<close> or \<^verbatim>\<open>0X\<close> selects radix 16, and the longest
  prefix of digits of the radix is the value, rounded to the nearest double; with no digit
  the result is \<^verbatim>\<open>NaN\<close>. White space is \<^verbatim>\<open>StrWhiteSpaceChar\<close> as far as one byte can
  hold it: the ASCII white space and the no-break space U+00A0.\<close>

definition StrWhiteSpaceChar :: "char \<Rightarrow> bool" where
  "StrWhiteSpaceChar c =
     (c = CHR 0x09 \<or> c = CHR 0x0A \<or> c = CHR 0x0B \<or> c = CHR 0x0C \<or> c = CHR 0x0D \<or>
      c = CHR 0x20 \<or> c = CHR 0xA0)"

definition digit_value :: "char \<Rightarrow> nat option" where
  "digit_value c =
     (let n = (of_char c :: nat) in
      if 48 \<le> n \<and> n \<le> 57 then Some (n - 48)
      else if 97 \<le> n \<and> n \<le> 122 then Some (n - 87)
      else if 65 \<le> n \<and> n \<le> 90 then Some (n - 55)
      else None)"

fun radix_digits :: "nat \<Rightarrow> string \<Rightarrow> nat list" where
  "radix_digits R [] = []"
| "radix_digits R (c # cs) =
     (case digit_value c of
        None \<Rightarrow> []
      | Some d \<Rightarrow> if d < R then d # radix_digits R cs else [])"

definition math_int :: "nat \<Rightarrow> nat list \<Rightarrow> nat" where
  "math_int R ds = foldl (\<lambda>acc d. acc * R + d) 0 ds"

text \<open>The double nearest to a natural number (ties to even): exact below \<open>2^53\<close>, above it
  the number keeps its 53 leading bits. The overflow to \<^verbatim>\<open>Infinity\<close> beyond \<open>2^1024\<close> is
  not modelled.\<close>

definition round_double :: "nat \<Rightarrow> nat" where
  "round_double n =
     (if n < 2 ^ 53 then n
      else
        (let e = floorlog 2 n - 53; q = n div 2 ^ e; r = n mod 2 ^ e in
         if 2 * r > 2 ^ e \<or> (2 * r = 2 ^ e \<and> odd q) then (q + 1) * 2 ^ e else q * 2 ^ e))"

definition parseInt :: "string \<Rightarrow> jsnum" where
  "parseInt inputString =
     (let S = dropWhile StrWhiteSpaceChar inputString;
          sign = (if take 1 S = ''-'' then - 1 else (1 :: int));
          S1 = (if take 1 S = ''+'' \<or> take 1 S = ''-'' then drop 1 S else S);
          hex = (take 2 S1 = ''0x'' \<or> take 2 S1 = ''0X'');
          R = (if hex then 16 else 10);
          S2 = (if hex then drop 2 S1 else S1);
          Z = radix_digits R S2
      in if Z = [] then NaN else Num (sign * int (round_double (math_int R Z))))"

text \<open>\<^verbatim>\<open>Number(string)\<close> on a string that is an optional sign and decimal digits, the
  numeric strings this model covers.\<close>

definition decimal_literal :: "string \<Rightarrow> int option" where
  "decimal_literal s =
     (let sign = (if take 1 s = ''-'' then - 1 else (1 :: int));
          ds = (if take 1 s = ''+'' \<or> take 1 s = ''-'' then drop 1 s else s)
      in if ds \<noteq> [] \<and> length (radix_digits 10 ds) = length ds
         then Some (sign * int (round_double (math_int 10 (radix_digits 10 ds))))
         else None)"

text \<open>The cast of a \<^verbatim>\<open>Number\<close> path: a number as it is, a boolean as 0 or 1, a decimal
  string as its number, \<^verbatim>\<open>undefined\<close> as absent; an array or an object is a
  \<^verbatim>\<open>CastError\<close>. Other strings are not modelled.\<close>

fun castNumber :: "jsval \<Rightarrow> int option cast" where
  "castNumber JUndefined = Cast None"
| "castNumber (JNum n) = Cast (Some n)"
| "castNumber (JBool b) = Cast (Some (if b then 1 else 0))"
| "castNumber (JStr s) = (case decimal_literal s of Some n \<Rightarrow> Cast (Some n) | None \<Rightarrow> Unmodelled)"
| "castNumber (JArr xs) = CastError"
| "castNumber (JObj kvs) = CastError"

text \<open>The cast of a \<^verbatim>\<open>String\<close> path: a string as it is, \<^verbatim>\<open>undefined\<close> as absent; an array
  or an object is a \<^verbatim>\<open>CastError\<close>. The \<^verbatim>\<open>toString()\<close> of a number or a boolean is not
  modelled.\<close>

fun castString :: "jsval \<Rightarrow> string option cast" where
  "castString JUndefined = Cast None"
| "castString (JStr s) = Cast (Some s)"
| "castString (JNum n) = Unmodelled"
| "castString (JBool b) = Unmodelled"
| "castString (JArr xs) = CastError"
| "castString (JObj kvs) = CastError"

text \<open>\<^verbatim>\<open>a === b\<close> for a stored field \<open>a\<close> and a raw body value \<open>b\<close>: equal when both are
  \<^verbatim>\<open>undefined\<close> or both are the same number, respectively the same string; values of
  different types are never equal.\<close>

fun strict_eq_Number :: "int option \<Rightarrow> jsval \<Rightarrow> bool" where
  "strict_eq_Number None JUndefined = True"
| "strict_eq_Number (Some x) (JNum y) = (x = y)"
| "strict_eq_Number _ _ = False"

fun strict_eq_String :: "string option \<Rightarrow> jsval \<Rightarrow> bool" where
  "strict_eq_String None JUndefined = True"
| "strict_eq_String (Some x) (JStr y) = (x = y)"
| "strict_eq_String _ _ = False"

text \<open>Truthiness: \<^verbatim>\<open>undefined\<close>, \<^verbatim>\<open>false\<close>, \<^verbatim>\<open>0\<close> and \<^verbatim>\<open>""\<close> are falsy, every array and
  object is truthy.\<close>

fun truthy :: "jsval \<Rightarrow> bool" where
  "truthy JUndefined = False"
| "truthy (JBool b) = b"
| "truthy (JNum n) = (n \<noteq> 0)"
| "truthy (JStr s) = (s \<noteq> [])"
| "truthy (JArr xs) = True"
| "truthy (JObj kvs) = True"

text \<open>\<^verbatim>\<open>newItem.quantity || 1\<close>\<close>

definition or_1 :: "jsval \<Rightarrow> jsval" where
  "or_1 q = (if truthy q then q else JNum 1)"

text \<open>\<^verbatim>\<open>x + v\<close> for a stored number \<open>x\<close> that may be \<^verbatim>\<open>undefined\<close> and a raw value \<open>v\<close>:
  with a number or a boolean (as 0 or 1) it is the sum, \<^verbatim>\<open>NaN\<close> when \<open>x\<close> or \<open>v\<close> is
  \<^verbatim>\<open>undefined\<close>. With a string, an array or an object the result is a concatenated
  string, which is not modelled (\<open>None\<close>).\<close>

fun js_plus :: "int option \<Rightarrow> jsval \<Rightarrow> jsnum option" where
  "js_plus None (JNum n) = Some NaN"
| "js_plus (Some x) (JNum n) = Some (Num (x + n))"
| "js_plus None (JBool b) = Some NaN"
| "js_plus (Some x) (JBool b) = Some (Num (x + (if b then 1 else 0)))"
| "js_plus x JUndefined = Some NaN"
| "js_plus x (JStr s) = None"
| "js_plus x (JArr xs) = None"
| "js_plus x (JObj kvs) = None"

text \<open>\<^verbatim>\<open>Math.max(1, quantity)\<close>: \<^verbatim>\<open>NaN\<close> when the argument is \<^verbatim>\<open>undefined\<close>.\<close>

fun Math_max :: "int \<Rightarrow> int option \<Rightarrow> jsnum" where
  "Math_max a None = NaN"
| "Math_max a (Some q) = Num (max a q)"

text \<open>\<^verbatim>\<open>item.id === n\<close> for a stored id (a number or \<^verbatim>\<open>undefined\<close>) and a computed
  number: \<^verbatim>\<open>NaN\<close> is equal to nothing, \<^verbatim>\<open>undefined\<close> to no number.\<close>

fun strict_eq :: "int option \<Rightarrow> jsnum \<Rightarrow> bool" where
  "strict_eq (Some x) (Num y) = (x = y)"
| "strict_eq _ _ = False"

text \<open>\<^verbatim>\<open>Array.prototype.findIndex\<close>: the index of the first element that satisfies the
  predicate, \<open>-1\<close> when there is none.\<close>

fun findIndex_from :: "nat \<Rightarrow> ('a \<Rightarrow> bool) \<Rightarrow> 'a list \<Rightarrow> int" where
  "findIndex_from k P [] = - 1"
| "findIndex_from k P (x # xs) = (if P x then int k else findIndex_from (Suc k) P xs)"

definition findIndex :: "('a \<Rightarrow> bool) \<Rightarrow> 'a list \<Rightarrow> int" where
  "findIndex P xs = findIndex_from 0 P xs"

section \<open>The documents\<close>

text \<open>\<^verbatim>\<open>cartSchema\<close>: no field of a line item is required, so each may be absent. The
  price is carried and never inspected; its type is left open. Dates are milliseconds,
  as \<^verbatim>\<open>Date.now()\<close> gives them.\<close>

record 'p CartLineItem =
  item_id :: "int option"
  item_name :: "string option"
  item_size :: "string option"
  item_color :: "string option"
  item_price :: "'p option"
  item_quantity :: "int option"
  item_image :: "string option"

text \<open>The body of the add route: the fields the handler and the schema read, each a raw
  value. The price is carried and never inspected; it is taken as the schema types it.\<close>

record 'p ItemBody =
  body_id :: jsval
  body_name :: jsval
  body_size :: jsval
  body_color :: jsval
  body_price :: "'p option"
  body_quantity :: jsval
  body_image :: jsval

record 'p Cart =
  cart_userId :: string
  cart_items :: "'p CartLineItem list"
  cart_updatedAt :: nat

text \<open>The collection of carts. \<^verbatim>\<open>userId\<close> is its unique key, so
  \<^verbatim>\<open>Cart.findOne({ userId })\<close> is a lookup and \<^verbatim>\<open>cart.save()\<close> an update at that key.
  \<^verbatim>\<open>userId\<close> is a segment of the route's path, which is never empty, so the schema's
  \<^verbatim>\<open>required\<close> on it always holds.\<close>

type_synonym 'p carts = "string \<rightharpoonup> 'p Cart"

text \<open>\<^verbatim>\<open>userSchema\<close>. \<open>user_oid\<close> is the document's \<^verbatim>\<open>_id\<close>.\<close>

record User =
  user_oid :: nat
  user_email :: string
  user_password :: string
  user_name :: "string option"
  user_createdAt :: nat


text \<open>The error responses, by message, and their HTTP status. Every \<^verbatim>\<open>catch\<close> block
  answers 500.\<close>

datatype error =
    CartNotFound
  | ItemNotFound
  | AlreadyExists
  | InvalidCredentials
  | StorageFailure

fun status :: "error \<Rightarrow> nat" where
  "status CartNotFound = 404"
| "status ItemNotFound = 404"
| "status AlreadyExists = 400"
| "status InvalidCredentials = 401"
| "status StorageFailure = 500"

section \<open>The cart routes\<close>

text \<open>Each handler takes the time of the request and the collection, and returns the
  response (the error, or the \<^verbatim>\<open>cart\<close> field of the success body) with the collection
  after it.\<close>

text \<open>\<^verbatim>\<open>GET /api/cart/:userId\<close>\<close>

definition GetCart ::
  "nat \<Rightarrow> 'p carts \<Rightarrow> string \<Rightarrow> (error + 'p CartLineItem list) \<times> 'p carts" where
  "GetCart now carts userId =
     (case carts userId of
        None \<Rightarrow>
          (let cart = \<lparr>cart_userId = userId, cart_items = [], cart_updatedAt = now\<rparr>
           in (Inr (cart_items cart), carts(userId \<mapsto> cart)))
      | Some cart \<Rightarrow> (Inr (cart_items cart), carts))"

text \<open>The predicate of \<^verbatim>\<open>findIndex\<close> in the add route: the stored item against the raw
  body, field by field with \<^verbatim>\<open>===\<close>.\<close>

definition same_variant :: "'p ItemBody \<Rightarrow> 'p CartLineItem \<Rightarrow> bool" where
  "same_variant newItem item =
     (strict_eq_Number (item_id item) (body_id newItem) \<and>
      strict_eq_String (item_size item) (body_size newItem) \<and>
      strict_eq_String (item_color item) (body_color newItem))"

text \<open>The line item the subdocument schema makes of a body that is put into \<^verbatim>\<open>items\<close>:
  every field cast by its path. A field that fails its cast makes \<^verbatim>\<open>save()\<close> reject.\<close>

definition castItem :: "'p ItemBody \<Rightarrow> 'p CartLineItem cast" where
  "castItem newItem =
     (case castNumber (body_id newItem) of CastError \<Rightarrow> CastError | Unmodelled \<Rightarrow> Unmodelled
      | Cast i \<Rightarrow>
     (case castString (body_name newItem) of CastError \<Rightarrow> CastError | Unmodelled \<Rightarrow> Unmodelled
      | Cast n \<Rightarrow>
     (case castString (body_size newItem) of CastError \<Rightarrow> CastError | Unmodelled \<Rightarrow> Unmodelled
      | Cast sz \<Rightarrow>
     (case castString (body_color newItem) of CastError \<Rightarrow> CastError | Unmodelled \<Rightarrow> Unmodelled
      | Cast c \<Rightarrow>
     (case castNumber (body_quantity newItem) of CastError \<Rightarrow> CastError | Unmodelled \<Rightarrow> Unmodelled
      | Cast q \<Rightarrow>
     (case castString (body_image newItem) of CastError \<Rightarrow> CastError | Unmodelled \<Rightarrow> Unmodelled
      | Cast im \<Rightarrow>
          Cast \<lparr>item_id = i, item_name = n, item_size = sz, item_color = c,
                item_price = body_price newItem, item_quantity = q, item_image = im\<rparr>))))))"

text \<open>\<^verbatim>\<open>POST /api/cart/:userId/add\<close>. When a cast fails or the sum is \<^verbatim>\<open>NaN\<close> the document
  refuses the value, \<^verbatim>\<open>save()\<close> rejects and the \<^verbatim>\<open>catch\<close> block answers 500. The result is
  \<open>None\<close> where a cast or the sum is not modelled.\<close>

definition AddItem ::
  "nat \<Rightarrow> 'p carts \<Rightarrow> string \<Rightarrow> 'p ItemBody \<Rightarrow>
     ((error + 'p CartLineItem list) \<times> 'p carts) option"
  where
  "AddItem now carts userId newItem =
     (case carts userId of
        None \<Rightarrow>
          (case castItem newItem of
             Unmodelled \<Rightarrow> None
           | CastError \<Rightarrow> Some (Inl StorageFailure, carts)
           | Cast item \<Rightarrow>
               (let cart = \<lparr>cart_userId = userId, cart_items = [item], cart_updatedAt = now\<rparr>
                in Some (Inr (cart_items cart), carts(userId \<mapsto> cart))))
      | Some cart \<Rightarrow>
          (let existingItemIndex = findIndex (same_variant newItem) (cart_items cart) in
           if existingItemIndex > - 1 then
             (let i = nat existingItemIndex in
              case js_plus (item_quantity (cart_items cart ! i)) (or_1 (body_quantity newItem)) of
                None \<Rightarrow> None
              | Some NaN \<Rightarrow> Some (Inl StorageFailure, carts)
              | Some (Num q) \<Rightarrow>
                  (let cart' = cart\<lparr>cart_items :=
                                 (cart_items cart)[i := (cart_items cart ! i)\<lparr>item_quantity := Some q\<rparr>],
                               cart_updatedAt := now\<rparr>
                   in Some (Inr (cart_items cart'), carts(userId \<mapsto> cart'))))
           else
             (case castItem newItem of
                Unmodelled \<Rightarrow> None
              | CastError \<Rightarrow> Some (Inl StorageFailure, carts)
              | Cast item \<Rightarrow>
                  (let cart' = cart\<lparr>cart_items := cart_items cart @ [item], cart_updatedAt := now\<rparr>
                   in Some (Inr (cart_items cart'), carts(userId \<mapsto> cart'))))))"

text \<open>\<^verbatim>\<open>PUT /api/cart/:userId/update/:itemId\<close>, with the body's \<^verbatim>\<open>quantity\<close>.\<close>

definition UpdateQuantity ::
  "nat \<Rightarrow> 'p carts \<Rightarrow> string \<Rightarrow> string \<Rightarrow> int option \<Rightarrow> (error + 'p CartLineItem list) \<times> 'p carts"
  where
  "UpdateQuantity now carts userId itemId quantity =
     (case carts userId of
        None \<Rightarrow> (Inl CartNotFound, carts)
      | Some cart \<Rightarrow>
          (let itemIndex = findIndex (\<lambda>item. strict_eq (item_id item) (parseInt itemId)) (cart_items cart) in
           if itemIndex = - 1 then (Inl ItemNotFound, carts)
           else
             (let i = nat itemIndex in
              case Math_max 1 quantity of
                NaN \<Rightarrow> (Inl StorageFailure, carts)
              | Num q \<Rightarrow>
                  (let cart' = cart\<lparr>cart_items :=
                                 (cart_items cart)[i := (cart_items cart ! i)\<lparr>item_quantity := Some q\<rparr>],
                               cart_updatedAt := now\<rparr>
                   in (Inr (cart_items cart'), carts(userId \<mapsto> cart'))))))"

text \<open>\<^verbatim>\<open>DELETE /api/cart/:userId/remove/:itemId\<close>\<close>

definition RemoveItem ::
  "nat \<Rightarrow> 'p carts \<Rightarrow> string \<Rightarrow> string \<Rightarrow> (error + 'p CartLineItem list) \<times> 'p carts" where
  "RemoveItem now carts userId itemId =
     (case carts userId of
        None \<Rightarrow> (Inl CartNotFound, carts)
      | Some cart \<Rightarrow>
          (let cart' = cart\<lparr>cart_items :=
                         filter (\<lambda>item. \<not> strict_eq (item_id item) (parseInt itemId)) (cart_items cart),
                       cart_updatedAt := now\<rparr>
           in (Inr (cart_items cart'), carts(userId \<mapsto> cart'))))"

text \<open>\<^verbatim>\<open>DELETE /api/cart/:userId/clear\<close>\<close>

definition ClearCart ::
  "nat \<Rightarrow> 'p carts \<Rightarrow> string \<Rightarrow> (error + 'p CartLineItem list) \<times> 'p carts" where
  "ClearCart now carts userId =
     (case carts userId of
        None \<Rightarrow> (Inl CartNotFound, carts)
      | Some cart \<Rightarrow>
          (let cart' = cart\<lparr>cart_items := [], cart_updatedAt := now\<rparr>
           in (Inr (cart_items cart'), carts(userId \<mapsto> cart'))))"

section \<open>The user routes\<close>

text \<open>The \<^verbatim>\<open>required\<close> validator of a \<^verbatim>\<open>String\<close> path (\<^verbatim>\<open>email\<close> and \<^verbatim>\<open>password\<close> of
  \<^verbatim>\<open>userSchema\<close>): the value must be present and a string of positive length, else
  \<^verbatim>\<open>save()\<close> rejects with a validation error.\<close>

definition checkRequired :: "string \<Rightarrow> bool" where
  "checkRequired v = (v \<noteq> [])"

text \<open>What a raw value \<open>v\<close> means in a query filter \<^verbatim>\<open>{ path: v }\<close> on a \<^verbatim>\<open>String\<close> path: the
  test it puts on the stored string.
  \<^item> A string is compared for equality.
  \<^item> An object whose keys are all \<^verbatim>\<open>$eq\<close> or \<^verbatim>\<open>$ne\<close> with string operands is a
    conjunction of query operators: equal, respectively not equal, to the operand.
  \<^item> An array, the empty object and an object with no \<^verbatim>\<open>$\<close> key fail the cast of the
    filter: \<^verbatim>\<open>findOne\<close> throws.
  \<^item> For \<^verbatim>\<open>undefined\<close> the driver's \<^verbatim>\<open>ignoreUndefined\<close> setting decides: the field is left
    out of the filter, or sent as \<^verbatim>\<open>null\<close>, which no stored string matches.
  \<^item> Numbers, booleans and the other operators are not modelled.\<close>

fun operator_test :: "string \<times> jsval \<Rightarrow> (string \<Rightarrow> bool) cast" where
  "operator_test (k, JStr s) =
     (if k = ''$eq'' then Cast (\<lambda>field. field = s)
      else if k = ''$ne'' then Cast (\<lambda>field. field \<noteq> s)
      else Unmodelled)"
| "operator_test (k, v) = Unmodelled"

fun all_tests :: "(string \<Rightarrow> bool) cast list \<Rightarrow> (string \<Rightarrow> bool) cast" where
  "all_tests [] = Cast (\<lambda>field. True)"
| "all_tests (Cast t # ts) =
     (case all_tests ts of Cast t' \<Rightarrow> Cast (\<lambda>field. t field \<and> t' field) | other \<Rightarrow> other)"
| "all_tests (CastError # ts) = CastError"
| "all_tests (Unmodelled # ts) = Unmodelled"

fun String_filter :: "bool \<Rightarrow> jsval \<Rightarrow> (string \<Rightarrow> bool) cast" where
  "String_filter ignoreUndefined (JStr s) = Cast (\<lambda>field. field = s)"
| "String_filter ignoreUndefined JUndefined = Cast (\<lambda>field. ignoreUndefined)"
| "String_filter ignoreUndefined (JArr xs) = CastError"
| "String_filter ignoreUndefined (JObj kvs) =
     (if list_all (\<lambda>(k, v). take 1 k \<noteq> ''$'') kvs then CastError
      else all_tests (map operator_test kvs))"
| "String_filter ignoreUndefined (JNum n) = Unmodelled"
| "String_filter ignoreUndefined (JBool b) = Unmodelled"

text \<open>\<^verbatim>\<open>POST /api/auth/register\<close>, with the body's \<^verbatim>\<open>email\<close>, \<^verbatim>\<open>password\<close> and \<^verbatim>\<open>name\<close> as
  raw values. The collection of users is the list of its documents in insertion order;
  \<^verbatim>\<open>User.findOne\<close> returns the first that matches the filter. \<open>oid\<close> is the \<^verbatim>\<open>_id\<close> the
  driver gives the new document, \<open>now\<close> the time the default of \<^verbatim>\<open>createdAt\<close> reads.
  \<^verbatim>\<open>new User\<close> casts the three fields by their paths; a failed cast or a failed
  \<^verbatim>\<open>required\<close> makes \<^verbatim>\<open>save()\<close> reject.\<close>

definition Register ::
  "bool \<Rightarrow> nat \<Rightarrow> nat \<Rightarrow> User list \<Rightarrow> jsval \<Rightarrow> jsval \<Rightarrow> jsval \<Rightarrow>
     ((error + nat) \<times> User list) option"
  where
  "Register ignoreUndefined now oid users email password name =
     (case String_filter ignoreUndefined email of
        Unmodelled \<Rightarrow> None
      | CastError \<Rightarrow> Some (Inl StorageFailure, users)
      | Cast email_test \<Rightarrow>
          (case find (\<lambda>u. email_test (user_email u)) users of
             Some existingUser \<Rightarrow> Some (Inl AlreadyExists, users)
           | None \<Rightarrow>
               (case (castString email, castString password, castString name) of
                  (Cast (Some e), Cast (Some p), Cast n) \<Rightarrow>
                    if checkRequired e \<and> checkRequired p
                    then (let user = \<lparr>user_oid = oid, user_email = e, user_password = p,
                                       user_name = n, user_createdAt = now\<rparr>
                          in Some (Inr (user_oid user), users @ [user]))
                    else Some (Inl StorageFailure, users)
                | (e, p, n) \<Rightarrow>
                    if e = Unmodelled \<or> p = Unmodelled \<or> n = Unmodelled then None
                    else Some (Inl StorageFailure, users))))"


section \<open>Sequences of cart requests\<close>





text \<open>The \<^verbatim>\<open>(id, size, color)\<close> triple of a line item.\<close>

definition variant :: "'p CartLineItem \<Rightarrow> int option \<times> string option \<times> string option" where
  "variant item = (item_id item, item_size item, item_color item)"






section \<open>Example documents\<close>

text \<open>Builders for the concrete inputs of the examples: a body and a line item that
  carry only \<^verbatim>\<open>id\<close>, \<^verbatim>\<open>size\<close>, \<^verbatim>\<open>color\<close> and \<^verbatim>\<open>quantity\<close>, a cart document and a user
  document.\<close>

definition body_of :: "jsval \<Rightarrow> jsval \<Rightarrow> jsval \<Rightarrow> jsval \<Rightarrow> int ItemBody" where
  "body_of i s c q =
     \<lparr>body_id = i, body_name = JUndefined, body_size = s, body_color = c, body_price = None,
      body_quantity = q, body_image = JUndefined\<rparr>"

definition line_item ::
  "int option \<Rightarrow> string option \<Rightarrow> string option \<Rightarrow> int option \<Rightarrow> int CartLineItem" where
  "line_item i s c q =
     \<lparr>item_id = i, item_name = None, item_size = s, item_color = c, item_price = None,
      item_quantity = q, item_image = None\<rparr>"

definition cart_of :: "string \<Rightarrow> int CartLineItem list \<Rightarrow> nat \<Rightarrow> int Cart" where
  "cart_of u its t = \<lparr>cart_userId = u, cart_items = its, cart_updatedAt = t\<rparr>"

definition account :: "nat \<Rightarrow> string \<Rightarrow> string \<Rightarrow> string option \<Rightarrow> nat \<Rightarrow> User" where
  "account oid e p n t =
     \<lparr>user_oid = oid, user_email = e, user_password = p, user_name = n, user_createdAt = t\<rparr>"

section \<open>Facts about \<^verbatim>\<open>findIndex\<close>\<close>

lemma findIndex_from_none: "(findIndex_from k P xs = - 1) = (\<forall>x\<in>set xs. \<not> P x)"
  by (induction xs arbitrary: k) auto

lemma findIndex_from_first:
  "i < length xs \<Longrightarrow> P (xs ! i) \<Longrightarrow> \<forall>j<i. \<not> P (xs ! j) \<Longrightarrow> findIndex_from k P xs = int (k + i)"
proof (induction xs arbitrary: k i)
  case Nil
  then show ?case by simp
next
  case (Cons x xs)
  show ?case
  proof (cases i)
    case 0
    with Cons.prems show ?thesis by simp
  next
    case (Suc m)
    with Cons.prems have "\<not> P x" by auto
    moreover have "findIndex_from (Suc k) P xs = int (Suc k + m)"
      using Cons.prems Suc by (intro Cons.IH) auto
    ultimately show ?thesis using Suc by simp
  qed
qed

lemma findIndex_from_found:
  "findIndex_from k P xs \<noteq> - 1 \<Longrightarrow>
   \<exists>i<length xs. findIndex_from k P xs = int (k + i) \<and> P (xs ! i) \<and> (\<forall>j<i. \<not> P (xs ! j))"
proof (induction xs arbitrary: k)
  case Nil
  then show ?case by simp
next
  case (Cons x xs)
  show ?case
  proof (cases "P x")
    case True
    then show ?thesis by (intro exI[of _ 0]) simp
  next
    case False
    with Cons.prems have "findIndex_from (Suc k) P xs \<noteq> - 1" by simp
    from Cons.IH[OF this] obtain i where i: "i < length xs"
      "findIndex_from (Suc k) P xs = int (Suc k + i)" "P (xs ! i)" "\<forall>j<i. \<not> P (xs ! j)"
      by blast
    have "\<forall>j<Suc i. \<not> P ((x # xs) ! j)"
      using False i(4) by (auto simp: nth_Cons split: nat.splits)
    with i False show ?thesis by (intro exI[of _ "Suc i"]) simp
  qed
qed

lemma findIndex_none: "(findIndex P xs = - 1) = (\<forall>x\<in>set xs. \<not> P x)"
  by (simp add: findIndex_def findIndex_from_none)

lemma findIndex_first:
  "i < length xs \<Longrightarrow> P (xs ! i) \<Longrightarrow> \<forall>j<i. \<not> P (xs ! j) \<Longrightarrow> findIndex P xs = int i"
  using findIndex_from_first[of i xs P 0] by (simp add: findIndex_def)

lemma findIndex_found:
  "findIndex P xs \<noteq> - 1 \<Longrightarrow>
   \<exists>i<length xs. findIndex P xs = int i \<and> P (xs ! i) \<and> (\<forall>j<i. \<not> P (xs ! j))"
  using findIndex_from_found[of 0 P xs] by (simp add: findIndex_def)


section \<open>The invariant is kept by every route\<close>






lemma variant_quantity_update [simp]: "variant (item\<lparr>item_quantity := q\<rparr>) = variant item"
  by (simp add: variant_def)











section \<open>What each cart route does, case by case\<close>

lemma UpdateQuantity_no_cart:
  "carts userId = None \<Longrightarrow> UpdateQuantity now carts userId itemId quantity = (Inl CartNotFound, carts)"
  by (simp add: UpdateQuantity_def)

lemma UpdateQuantity_no_item:
  "carts userId = Some cart \<Longrightarrow>
   \<forall>item\<in>set (cart_items cart). \<not> strict_eq (item_id item) (parseInt itemId) \<Longrightarrow>
   UpdateQuantity now carts userId itemId quantity = (Inl ItemNotFound, carts)"
  by (simp add: UpdateQuantity_def findIndex_none)

lemma UpdateQuantity_item:
  "carts userId = Some cart \<Longrightarrow>
   \<exists>item\<in>set (cart_items cart). strict_eq (item_id item) (parseInt itemId) \<Longrightarrow>
   UpdateQuantity now carts userId itemId quantity =
     (let i = nat (findIndex (\<lambda>item. strict_eq (item_id item) (parseInt itemId)) (cart_items cart)) in
      case quantity of
        None \<Rightarrow> (Inl StorageFailure, carts)
      | Some q \<Rightarrow>
          (Inr ((cart_items cart)[i := (cart_items cart ! i)\<lparr>item_quantity := Some (max 1 q)\<rparr>]),
           carts(userId \<mapsto> cart\<lparr>cart_items :=
               (cart_items cart)[i := (cart_items cart ! i)\<lparr>item_quantity := Some (max 1 q)\<rparr>],
             cart_updatedAt := now\<rparr>)))"
proof -
  assume c: "carts userId = Some cart"
    and ex: "\<exists>item\<in>set (cart_items cart). strict_eq (item_id item) (parseInt itemId)"
  from ex have "findIndex (\<lambda>item. strict_eq (item_id item) (parseInt itemId)) (cart_items cart) \<noteq> - 1"
    by (simp add: findIndex_none)
  with c show ?thesis
    by (cases quantity) (simp_all add: UpdateQuantity_def Let_def)
qed

lemma castItem_quantity:
  "castItem newItem = Cast item \<Longrightarrow> castNumber (body_quantity newItem) = Cast (item_quantity item)"
  by (auto simp: castItem_def split: cast.splits)

lemma AddItem_no_cart:
  "carts userId = None \<Longrightarrow> castItem newItem = Cast item \<Longrightarrow>
   AddItem now carts userId newItem =
     Some (Inr [item],
           carts(userId \<mapsto> \<lparr>cart_userId = userId, cart_items = [item], cart_updatedAt = now\<rparr>))"
  by (simp add: AddItem_def)

lemma AddItem_new_variant:
  assumes "carts userId = Some cart"
    and "\<forall>it\<in>set (cart_items cart). \<not> same_variant newItem it"
    and "castItem newItem = Cast item"
  shows "AddItem now carts userId newItem =
     Some (Inr (cart_items cart @ [item]),
           carts(userId \<mapsto> cart\<lparr>cart_items := cart_items cart @ [item], cart_updatedAt := now\<rparr>))"
proof -
  from assms(2) have "findIndex (same_variant newItem) (cart_items cart) = - 1"
    by (simp add: findIndex_none)
  with assms(1,3) show ?thesis by (simp add: AddItem_def)
qed

lemma AddItem_existing_variant:
  assumes "carts userId = Some cart"
    and "i < length (cart_items cart)"
    and "same_variant newItem (cart_items cart ! i)"
    and "\<forall>j<i. \<not> same_variant newItem (cart_items cart ! j)"
    and "body_quantity newItem = JUndefined \<or> body_quantity newItem = JNum n"
  shows "AddItem now carts userId newItem =
     (case item_quantity (cart_items cart ! i) of
        None \<Rightarrow> Some (Inl StorageFailure, carts)
      | Some q0 \<Rightarrow>
          (let q = q0 + (if body_quantity newItem = JUndefined \<or> n = 0 then 1 else n) in
           Some (Inr ((cart_items cart)[i := (cart_items cart ! i)\<lparr>item_quantity := Some q\<rparr>]),
                 carts(userId \<mapsto> cart\<lparr>cart_items :=
                     (cart_items cart)[i := (cart_items cart ! i)\<lparr>item_quantity := Some q\<rparr>],
                   cart_updatedAt := now\<rparr>))))"
proof -
  have "findIndex (same_variant newItem) (cart_items cart) = int i"
    using assms(2-4) by (intro findIndex_first) simp_all
  with assms(1,5) show ?thesis
    by (cases "item_quantity (cart_items cart ! i)") (auto simp: AddItem_def or_1_def Let_def)
qed

section \<open>What the user routes do on strings\<close>

lemma Register_string_email_found:
  "\<exists>u\<in>set users. user_email u = e \<Longrightarrow>
   Register ignoreUndefined now oid users (JStr e) password name = Some (Inl AlreadyExists, users)"
proof -
  assume "\<exists>u\<in>set users. user_email u = e"
  then obtain u where "find (\<lambda>u. user_email u = e) users = Some u"
    by (cases "find (\<lambda>u. user_email u = e) users") (auto simp: find_None_iff)
  then show ?thesis by (simp add: Register_def)
qed

lemma Register_string_email_fresh:
  assumes "\<forall>u\<in>set users. user_email u \<noteq> e" and "castString name = Cast n"
  shows "Register ignoreUndefined now oid users (JStr e) (JStr p) name =
     (if e \<noteq> [] \<and> p \<noteq> []
      then Some (Inr oid, users @ [\<lparr>user_oid = oid, user_email = e, user_password = p,
                                      user_name = n, user_createdAt = now\<rparr>])
      else Some (Inl StorageFailure, users))"
proof -
  from assms(1) have "find (\<lambda>u. user_email u = e) users = None"
    by (simp add: find_None_iff)
  with assms(2) show ?thesis by (simp add: Register_def checkRequired_def)
qed


text \<open>An operator object as \<^verbatim>\<open>email\<close> goes into the filter as it is: \<^verbatim>\<open>{"$ne": "x"}\<close> matches
  the stored user, and the route answers that the user exists.\<close>

lemma Register_operator_email:
  "Register False 9 2 [account 1 ''ann@shop.co'' ''pw1'' (Some ''Ann'') 3]
     (JObj [(''$ne'', JStr ''x'')]) (JStr ''pw2'') JUndefined =
     Some (Inl AlreadyExists, [account 1 ''ann@shop.co'' ''pw1'' (Some ''Ann'') 3])"
  by (simp add: Register_def account_def)

section \<open>The claims\<close>

text \<open>C1. The claim: for an item whose \<^verbatim>\<open>(id, size, color)\<close> triple matches no line item of
  the cart, AddItem appends exactly one line item whose quantity is the supplied
  quantity, or 1 when the quantity is omitted, zero or otherwise falsy. The route appends
  the body as it is cast (\<open>AddItem_no_cart\<close>, \<open>AddItem_new_variant\<close>, \<open>castItem_quantity\<close>);
  the default \<^verbatim>\<open>newItem.quantity || 1\<close> stands only in the branch that increments an
  existing item. Evaluated: an item sent without a quantity is stored without one, in a
  new cart, and an item sent with quantity 0 is stored with quantity 0, appended to an
  existing cart.\<close>

theorem C1_AddItem_stores_quantity_verbatim:
  "AddItem 5 Map.empty ''u1'' (body_of (JNum 7) (JStr ''M'') (JStr ''red'') JUndefined) =
     Some (Inr [line_item (Some 7) (Some ''M'') (Some ''red'') None],
           [''u1'' \<mapsto> cart_of ''u1'' [line_item (Some 7) (Some ''M'') (Some ''red'') None] 5]) \<and>
   item_quantity (line_item (Some 7) (Some ''M'') (Some ''red'') None) = None \<and>
   AddItem 6 [''u1'' \<mapsto> cart_of ''u1'' [line_item (Some 8) None None (Some 1)] 5] ''u1''
       (body_of (JNum 7) (JStr ''M'') (JStr ''red'') (JNum 0)) =
     Some (Inr [line_item (Some 8) None None (Some 1),
                line_item (Some 7) (Some ''M'') (Some ''red'') (Some 0)],
           [''u1'' \<mapsto> cart_of ''u1'' [line_item (Some 8) None None (Some 1),
                line_item (Some 7) (Some ''M'') (Some ''red'') (Some 0)] 6]) \<and>
   item_quantity (line_item (Some 7) (Some ''M'') (Some ''red'') (Some 0)) = Some 0"
  by (simp add: AddItem_def castItem_def findIndex_def same_variant_def cart_of_def line_item_def
      body_of_def)




text \<open>C3. The claim: for every cart that holds a line item with the triple of the incoming
  item, AddItem adds the incoming quantity (1 when it is falsy) to that item's quantity
  and keeps the length of the sequence. This holds when the stored item has a quantity
  (\<open>AddItem_existing_variant\<close>). Evaluated: the first request stores an item that was sent
  without a quantity; at the second request for the same triple the sum
  \<^verbatim>\<open>undefined + 2\<close> is \<^verbatim>\<open>NaN\<close>, the save is rejected, the route answers 500 and the item
  still has no quantity.\<close>

theorem C3_AddItem_NaN_on_item_without_quantity:
  "map_option snd (AddItem 5 Map.empty ''u1'' (body_of (JNum 7) (JStr ''M'') (JStr ''red'') JUndefined)) =
     Some [''u1'' \<mapsto> cart_of ''u1'' [line_item (Some 7) (Some ''M'') (Some ''red'') None] 5] \<and>
   js_plus (item_quantity (line_item (Some 7) (Some ''M'') (Some ''red'') None))
     (or_1 (body_quantity (body_of (JNum 7) (JStr ''M'') (JStr ''red'') (JNum 2)))) = Some NaN \<and>
   AddItem 6 [''u1'' \<mapsto> cart_of ''u1'' [line_item (Some 7) (Some ''M'') (Some ''red'') None] 5]
       ''u1'' (body_of (JNum 7) (JStr ''M'') (JStr ''red'') (JNum 2)) =
     Some (Inl StorageFailure,
           [''u1'' \<mapsto> cart_of ''u1'' [line_item (Some 7) (Some ''M'') (Some ''red'') None] 5])"
  by (simp add: AddItem_def castItem_def findIndex_def same_variant_def cart_of_def line_item_def
      body_of_def or_1_def)

text \<open>C4. For every existing cart with at least one line item whose id is the parsed
  \<^verbatim>\<open>itemId\<close>, UpdateQuantity with a requested quantity \<open>q\<close> sets the quantity of the
  first such item (index \<open>i\<close>: no earlier item has that id) to \<open>max 1 q\<close> and changes no
  other item; a requested quantity of 0 or less gives exactly 1, and a quantity of 1 or
  more is stored as it is, with no upper bound.\<close>

theorem C4_UpdateQuantity_clamps:
  assumes "carts userId = Some cart"
    and "\<exists>item\<in>set (cart_items cart). strict_eq (item_id item) (parseInt itemId)"
  shows "\<exists>i items'.
           i < length (cart_items cart) \<and>
           strict_eq (item_id (cart_items cart ! i)) (parseInt itemId) \<and>
           (\<forall>j<i. \<not> strict_eq (item_id (cart_items cart ! j)) (parseInt itemId)) \<and>
           UpdateQuantity now carts userId itemId (Some q) =
             (Inr items', carts(userId \<mapsto> cart\<lparr>cart_items := items', cart_updatedAt := now\<rparr>)) \<and>
           items' = (cart_items cart)[i := (cart_items cart ! i)\<lparr>item_quantity := Some (max 1 q)\<rparr>] \<and>
           item_quantity (items' ! i) = Some (max 1 q) \<and>
           (q \<le> 0 \<longrightarrow> item_quantity (items' ! i) = Some 1) \<and>
           (1 \<le> q \<longrightarrow> item_quantity (items' ! i) = Some q)"
proof -
  let ?P = "\<lambda>item. strict_eq (item_id item) (parseInt itemId)"
  from assms(2) have "findIndex ?P (cart_items cart) \<noteq> - 1"
    by (simp add: findIndex_none)
  from findIndex_found [OF this] obtain i where i: "i < length (cart_items cart)"
    and idx: "findIndex ?P (cart_items cart) = int i"
    and hit: "?P (cart_items cart ! i)"
    and first: "\<forall>j<i. \<not> ?P (cart_items cart ! j)"
    by blast
  from UpdateQuantity_item [of carts userId cart itemId now "Some q"] assms idx
  have "UpdateQuantity now carts userId itemId (Some q) =
      (Inr ((cart_items cart)[i := (cart_items cart ! i)\<lparr>item_quantity := Some (max 1 q)\<rparr>]),
       carts(userId \<mapsto> cart\<lparr>cart_items :=
           (cart_items cart)[i := (cart_items cart ! i)\<lparr>item_quantity := Some (max 1 q)\<rparr>],
         cart_updatedAt := now\<rparr>))"
    by simp
  with i hit first show ?thesis
    by (intro exI[of _ i]) (simp add: max_def)
qed

theorem C4_UpdateQuantity_clamps_witness:
  "UpdateQuantity 6 [''u1'' \<mapsto> cart_of ''u1''
       [line_item (Some 8) (Some ''M'') None (Some 1),
        line_item (Some 7) (Some ''M'') None (Some 2),
        line_item (Some 7) (Some ''L'') None (Some 4)] 5] ''u1'' ''7'' (Some (- 3)) =
     (Inr [line_item (Some 8) (Some ''M'') None (Some 1),
           line_item (Some 7) (Some ''M'') None (Some 1),
           line_item (Some 7) (Some ''L'') None (Some 4)],
      [''u1'' \<mapsto> cart_of ''u1''
       [line_item (Some 8) (Some ''M'') None (Some 1),
        line_item (Some 7) (Some ''M'') None (Some 1),
        line_item (Some 7) (Some ''L'') None (Some 4)] 6])"
proof -
  let ?items = "[line_item (Some 8) (Some ''M'') None (Some 1),
        line_item (Some 7) (Some ''M'') None (Some 2),
        line_item (Some 7) (Some ''L'') None (Some 4)]"
  let ?cart = "cart_of ''u1'' ?items 5"
  let ?P = "\<lambda>item. strict_eq (item_id item) (parseInt ''7'')"
  have p: "parseInt ''7'' = Num 7"
    by (simp add: parseInt_def StrWhiteSpaceChar_def digit_value_def math_int_def round_double_def)
  have 1: "[''u1'' \<mapsto> ?cart] ''u1'' = Some ?cart" by simp
  have 2: "\<exists>item\<in>set (cart_items ?cart). ?P item"
    by (simp add: p cart_of_def line_item_def)
  from C4_UpdateQuantity_clamps [where carts = "[''u1'' \<mapsto> ?cart]" and userId = "''u1''"
      and cart = ?cart and itemId = "''7''" and now = 6 and q = "- 3", OF 1 2]
  obtain i where i: "i < length (cart_items ?cart)" "?P (cart_items ?cart ! i)"
      "\<forall>j<i. \<not> ?P (cart_items ?cart ! j)"
    and upd: "UpdateQuantity 6 [''u1'' \<mapsto> ?cart] ''u1'' ''7'' (Some (- 3)) =
      (Inr ((cart_items ?cart)[i := (cart_items ?cart ! i)\<lparr>item_quantity := Some (max 1 (- 3))\<rparr>]),
       [''u1'' \<mapsto> ?cart\<lparr>cart_items :=
           (cart_items ?cart)[i := (cart_items ?cart ! i)\<lparr>item_quantity := Some (max 1 (- 3))\<rparr>],
         cart_updatedAt := 6\<rparr>])"
    by auto
  have "i = 1"
  proof -
    have "i < 3" using i(1) by (simp add: cart_of_def)
    moreover have "i \<noteq> 0"
    proof
      assume "i = 0"
      with i(2) show False by (simp add: p cart_of_def line_item_def)
    qed
    moreover have "i \<noteq> 2"
    proof
      assume "i = 2"
      with i(3) have "\<not> ?P (cart_items ?cart ! 1)" by simp
      then show False by (simp add: p cart_of_def line_item_def)
    qed
    ultimately show ?thesis by arith
  qed
  with upd show ?thesis by (simp add: cart_of_def line_item_def)
qed

text \<open>C5. UpdateQuantity answers NotFound (status 404) exactly when there is no cart for
  the \<^verbatim>\<open>userId\<close> or the cart has no line item whose id is the parsed \<^verbatim>\<open>itemId\<close>; and
  whenever it answers an error, the collection is as it was.\<close>

theorem C5_UpdateQuantity_NotFound:
  "((\<exists>e. fst (UpdateQuantity now carts userId itemId quantity) = Inl e \<and> status e = 404) \<longleftrightarrow>
      (carts userId = None \<or>
       (\<exists>cart. carts userId = Some cart \<and>
          (\<forall>item\<in>set (cart_items cart). \<not> strict_eq (item_id item) (parseInt itemId))))) \<and>
   (\<forall>e. fst (UpdateQuantity now carts userId itemId quantity) = Inl e \<longrightarrow>
      snd (UpdateQuantity now carts userId itemId quantity) = carts)"
proof (cases "carts userId")
  case None
  then show ?thesis by (simp add: UpdateQuantity_no_cart)
next
  case (Some cart)
  show ?thesis
  proof (cases "\<exists>item\<in>set (cart_items cart). strict_eq (item_id item) (parseInt itemId)")
    case False
    then have "\<forall>item\<in>set (cart_items cart). \<not> strict_eq (item_id item) (parseInt itemId)"
      by simp
    from UpdateQuantity_no_item [of carts userId cart itemId now quantity] Some this
    show ?thesis by simp
  next
    case True
    from UpdateQuantity_item [of carts userId cart itemId now quantity] Some True show ?thesis
      by (cases quantity) (auto simp: Let_def)
  qed
qed

theorem C5_UpdateQuantity_NotFound_witness:
  "UpdateQuantity 6 [''u1'' \<mapsto> cart_of ''u1'' [line_item (Some 7) (Some ''M'') None (Some 2)] 5]
     ''u1'' ''9'' (Some 3) =
     (Inl ItemNotFound,
      [''u1'' \<mapsto> cart_of ''u1'' [line_item (Some 7) (Some ''M'') None (Some 2)] 5]) \<and>
   UpdateQuantity 6 (Map.empty :: int carts) ''u1'' ''7'' (Some 3) = (Inl CartNotFound, Map.empty)"
proof -
  let ?carts = "[''u1'' \<mapsto> cart_of ''u1'' [line_item (Some 7) (Some ''M'') None (Some 2)] 5]"
  have p: "parseInt ''9'' = Num 9"
    by (simp add: parseInt_def StrWhiteSpaceChar_def digit_value_def math_int_def round_double_def)
  have absent: "?carts ''u1'' = None \<or>
      (\<exists>cart. ?carts ''u1'' = Some cart \<and>
         (\<forall>item\<in>set (cart_items cart). \<not> strict_eq (item_id item) (parseInt ''9'')))"
    by (simp add: p cart_of_def line_item_def)
  from C5_UpdateQuantity_NotFound [of 6 ?carts "''u1''" "''9''" "Some 3"] absent
  have "\<exists>e. fst (UpdateQuantity 6 ?carts ''u1'' ''9'' (Some 3)) = Inl e \<and> status e = 404"
    and "snd (UpdateQuantity 6 ?carts ''u1'' ''9'' (Some 3)) = ?carts"
    by blast+
  moreover from C5_UpdateQuantity_NotFound [of 6 "Map.empty :: int carts" "''u1''" "''7''" "Some 3"]
  have "snd (UpdateQuantity 6 (Map.empty :: int carts) ''u1'' ''7'' (Some 3)) = Map.empty"
    by (simp add: UpdateQuantity_def)
  ultimately show ?thesis
    by (simp add: UpdateQuantity_def findIndex_def p cart_of_def line_item_def)
qed

text \<open>C6. With no cart for the \<^verbatim>\<open>userId\<close>, RemoveItem answers NotFound (status 404) and
  writes nothing. With a cart it always succeeds: the new sequence is the old one without
  the line items whose id is the parsed \<^verbatim>\<open>itemId\<close>, whatever their size and color (no
  item with that id is left, the others stay in order), and it is the old sequence when
  no item has that id.\<close>

theorem C6_RemoveItem:
  "((\<exists>e. fst (RemoveItem now carts userId itemId) = Inl e) \<longleftrightarrow> carts userId = None) \<and>
   (carts userId = None \<longrightarrow>
      RemoveItem now carts userId itemId = (Inl CartNotFound, carts) \<and> status CartNotFound = 404) \<and>
   (carts userId = Some cart \<longrightarrow>
      (\<exists>items'.
         RemoveItem now carts userId itemId =
           (Inr items', carts(userId \<mapsto> cart\<lparr>cart_items := items', cart_updatedAt := now\<rparr>)) \<and>
         (\<forall>item\<in>set items'. \<not> strict_eq (item_id item) (parseInt itemId)) \<and>
         filter (\<lambda>item. \<not> strict_eq (item_id item) (parseInt itemId)) (cart_items cart) = items' \<and>
         ((\<forall>item\<in>set (cart_items cart). \<not> strict_eq (item_id item) (parseInt itemId)) \<longrightarrow>
            items' = cart_items cart)))"
  by (cases "carts userId") (auto simp: RemoveItem_def)

theorem C6_RemoveItem_witness:
  "RemoveItem 6 [''u1'' \<mapsto> cart_of ''u1''
       [line_item (Some 7) (Some ''M'') (Some ''red'') (Some 2),
        line_item (Some 8) (Some ''M'') None (Some 1),
        line_item (Some 7) (Some ''L'') (Some ''blue'') (Some 4)] 5] ''u1'' ''7'' =
     (Inr [line_item (Some 8) (Some ''M'') None (Some 1)],
      [''u1'' \<mapsto> cart_of ''u1'' [line_item (Some 8) (Some ''M'') None (Some 1)] 6]) \<and>
   RemoveItem 6 [''u1'' \<mapsto> cart_of ''u1'' [line_item (Some 8) (Some ''M'') None (Some 1)] 5]
       ''u1'' ''7'' =
     (Inr [line_item (Some 8) (Some ''M'') None (Some 1)],
      [''u1'' \<mapsto> cart_of ''u1'' [line_item (Some 8) (Some ''M'') None (Some 1)] 6]) \<and>
   RemoveItem 6 (Map.empty :: int carts) ''u1'' ''7'' = (Inl CartNotFound, Map.empty)"
proof -
  have p: "parseInt ''7'' = Num 7"
    by (simp add: parseInt_def StrWhiteSpaceChar_def digit_value_def math_int_def round_double_def)
  show ?thesis
    using C6_RemoveItem [where now = 6 and userId = "''u1''" and itemId = "''7''"
        and carts = "[''u1'' \<mapsto> cart_of ''u1''
          [line_item (Some 7) (Some ''M'') (Some ''red'') (Some 2),
           line_item (Some 8) (Some ''M'') None (Some 1),
           line_item (Some 7) (Some ''L'') (Some ''blue'') (Some 4)] 5]"
        and cart = "cart_of ''u1''
          [line_item (Some 7) (Some ''M'') (Some ''red'') (Some 2),
           line_item (Some 8) (Some ''M'') None (Some 1),
           line_item (Some 7) (Some ''L'') (Some ''blue'') (Some 4)] 5"]
      C6_RemoveItem [where now = 6 and userId = "''u1''" and itemId = "''7''"
        and carts = "[''u1'' \<mapsto> cart_of ''u1'' [line_item (Some 8) (Some ''M'') None (Some 1)] 5]"
        and cart = "cart_of ''u1'' [line_item (Some 8) (Some ''M'') None (Some 1)] 5"]
      C6_RemoveItem [where now = 6 and userId = "''u1''" and itemId = "''7''"
        and carts = "Map.empty :: int carts"]
    by (simp add: p cart_of_def line_item_def)
qed

text \<open>C7. For a \<^verbatim>\<open>userId\<close> with no cart, GetCart stores an empty cart and returns the
  empty sequence, while ClearCart answers NotFound (status 404) and stores nothing. For a
  \<^verbatim>\<open>userId\<close> with a cart, ClearCart sets its items to the empty sequence and the document
  is still in the collection.\<close>

theorem C7_GetCart_creates_ClearCart_needs_cart:
  "(carts userId = None \<longrightarrow>
      GetCart now carts userId =
        (Inr [], carts(userId \<mapsto> \<lparr>cart_userId = userId, cart_items = [], cart_updatedAt = now\<rparr>)) \<and>
      ClearCart now carts userId = (Inl CartNotFound, carts) \<and>
      status CartNotFound = 404) \<and>
   (carts userId = Some cart \<longrightarrow>
      ClearCart now carts userId =
        (Inr [], carts(userId \<mapsto> cart\<lparr>cart_items := [], cart_updatedAt := now\<rparr>)) \<and>
      snd (ClearCart now carts userId) userId \<noteq> None)"
  by (simp add: GetCart_def ClearCart_def)

theorem C7_GetCart_creates_ClearCart_needs_cart_witness:
  "GetCart 5 (Map.empty :: int carts) ''u1'' =
     (Inr [], [''u1'' \<mapsto> \<lparr>cart_userId = ''u1'', cart_items = [], cart_updatedAt = 5\<rparr>]) \<and>
   ClearCart 5 (Map.empty :: int carts) ''u1'' = (Inl CartNotFound, Map.empty) \<and>
   ClearCart 9 [''u1'' \<mapsto> \<lparr>cart_userId = ''u1'',
       cart_items = [\<lparr>item_id = Some 7, item_name = Some ''Shirt'', item_size = Some ''M'',
                      item_color = Some ''red'', item_price = Some (10 :: int),
                      item_quantity = Some 2, item_image = None\<rparr>],
       cart_updatedAt = 5\<rparr>] ''u1'' =
     (Inr [], [''u1'' \<mapsto> \<lparr>cart_userId = ''u1'', cart_items = [], cart_updatedAt = 9\<rparr>])"
  using C7_GetCart_creates_ClearCart_needs_cart
      [where carts = "Map.empty :: int carts" and userId = "''u1''" and now = 5]
    C7_GetCart_creates_ClearCart_needs_cart
      [where now = 9 and userId = "''u1''"
        and carts = "[''u1'' \<mapsto> \<lparr>cart_userId = ''u1'',
          cart_items = [\<lparr>item_id = Some 7, item_name = Some ''Shirt'', item_size = Some ''M'',
                         item_color = Some ''red'', item_price = Some (10 :: int),
                         item_quantity = Some 2, item_image = None\<rparr>],
          cart_updatedAt = 5\<rparr>]"
        and cart = "\<lparr>cart_userId = ''u1'',
          cart_items = [\<lparr>item_id = Some 7, item_name = Some ''Shirt'', item_size = Some ''M'',
                         item_color = Some ''red'', item_price = Some (10 :: int),
                         item_quantity = Some 2, item_image = None\<rparr>],
          cart_updatedAt = 5\<rparr>"]
  by simp

text \<open>C8, as amended. For an email given as a string, Register answers AlreadyExists
  (status 400) exactly when a user with that email, compared as a string, is stored, and
  then the collection is as it was. Otherwise, when the password is a string too and
  neither is empty, it stores a new user with the given fields, \<^verbatim>\<open>createdAt\<close> at the time
  of the request, and returns its identifier; when the email or the password is the empty
  string, the \<^verbatim>\<open>required\<close> validator rejects the save, the route answers 500 and nothing
  is stored. (The name is a string or absent.)\<close>

theorem C8_Register:
  assumes "castString name = Cast n"
  shows
  "(Register ignoreUndefined now oid users (JStr e) (JStr p) name = Some (Inl AlreadyExists, users) \<longleftrightarrow>
      (\<exists>u\<in>set users. user_email u = e)) \<and>
   (\<forall>users'. Register ignoreUndefined now oid users (JStr e) (JStr p) name =
        Some (Inl AlreadyExists, users') \<longrightarrow> users' = users \<and> status AlreadyExists = 400) \<and>
   ((\<forall>u\<in>set users. user_email u \<noteq> e) \<and> e \<noteq> [] \<and> p \<noteq> [] \<longrightarrow>
      Register ignoreUndefined now oid users (JStr e) (JStr p) name =
        Some (Inr oid, users @ [\<lparr>user_oid = oid, user_email = e, user_password = p,
                                  user_name = n, user_createdAt = now\<rparr>])) \<and>
   ((\<forall>u\<in>set users. user_email u \<noteq> e) \<and> (e = [] \<or> p = []) \<longrightarrow>
      Register ignoreUndefined now oid users (JStr e) (JStr p) name = Some (Inl StorageFailure, users))"
proof (cases "\<exists>u\<in>set users. user_email u = e")
  case True
  from Register_string_email_found [OF True, of ignoreUndefined now oid "JStr p" name] True
  show ?thesis by auto
next
  case False
  then have "\<forall>u\<in>set users. user_email u \<noteq> e" by simp
  from Register_string_email_fresh [OF this assms, of ignoreUndefined now oid p] False
  show ?thesis by auto
qed

theorem C8_Register_witness:
  "Register False 9 2 [account 1 ''ann@shop.co'' ''pw1'' (Some ''Ann'') 3]
     (JStr ''bob@shop.co'') (JStr ''pw2'') JUndefined =
     Some (Inr 2, [account 1 ''ann@shop.co'' ''pw1'' (Some ''Ann'') 3,
                   account 2 ''bob@shop.co'' ''pw2'' None 9]) \<and>
   Register False 9 2 [account 1 ''ann@shop.co'' ''pw1'' (Some ''Ann'') 3]
     (JStr ''ann@shop.co'') (JStr ''other'') JUndefined =
     Some (Inl AlreadyExists, [account 1 ''ann@shop.co'' ''pw1'' (Some ''Ann'') 3])"
proof -
  let ?users = "[account 1 ''ann@shop.co'' ''pw1'' (Some ''Ann'') 3]"
  have name: "castString JUndefined = Cast None" by simp
  have fresh: "(\<forall>u\<in>set ?users. user_email u \<noteq> ''bob@shop.co'') \<and> ''bob@shop.co'' \<noteq> [] \<and> ''pw2'' \<noteq> []"
    by (simp add: account_def)
  have taken: "\<exists>u\<in>set ?users. user_email u = ''ann@shop.co''"
    by (simp add: account_def)
  from C8_Register [OF name, of False 9 2 ?users "''bob@shop.co''" "''pw2''"] fresh
  have a: "Register False 9 2 ?users (JStr ''bob@shop.co'') (JStr ''pw2'') JUndefined =
      Some (Inr 2, ?users @ [\<lparr>user_oid = 2, user_email = ''bob@shop.co'', user_password = ''pw2'',
                               user_name = None, user_createdAt = 9\<rparr>])"
    by blast
  from C8_Register [OF name, of False 9 2 ?users "''ann@shop.co''" "''other''"] taken
  have b: "Register False 9 2 ?users (JStr ''ann@shop.co'') (JStr ''other'') JUndefined =
      Some (Inl AlreadyExists, ?users)"
    by blast
  from a b show ?thesis by (simp add: account_def)
qed

text \<open>The claim as the specification states it fails: no user has the email, the
  password is the empty string, and no user is created.\<close>

theorem C8_Register_counterexample:
  "find (\<lambda>u. user_email u = ''bob@shop.co'') [account 1 ''ann@shop.co'' ''pw1'' (Some ''Ann'') 3] = None \<and>
   Register False 9 2 [account 1 ''ann@shop.co'' ''pw1'' (Some ''Ann'') 3]
     (JStr ''bob@shop.co'') (JStr []) (JStr ''Bob'') =
     Some (Inl StorageFailure, [account 1 ''ann@shop.co'' ''pw1'' (Some ''Ann'') 3])"
  by (simp add: Register_def checkRequired_def account_def)




text \<open>C10. For every existing cart and every \<^verbatim>\<open>itemId\<close> that \<^verbatim>\<open>parseInt\<close> maps to
  \<^verbatim>\<open>NaN\<close>, the parsed value is equal to no stored id, so UpdateQuantity answers NotFound
  (item not found, status 404) and writes nothing, and RemoveItem succeeds and returns
  the item sequence as it was.\<close>

theorem C10_unparsable_itemId:
  assumes "carts userId = Some cart" and "parseInt itemId = NaN"
  shows "(\<forall>item\<in>set (cart_items cart). \<not> strict_eq (item_id item) (parseInt itemId)) \<and>
         UpdateQuantity now carts userId itemId quantity = (Inl ItemNotFound, carts) \<and>
         status ItemNotFound = 404 \<and>
         RemoveItem now carts userId itemId =
           (Inr (cart_items cart), carts(userId \<mapsto> cart\<lparr>cart_updatedAt := now\<rparr>))"
proof -
  have none: "\<forall>item\<in>set (cart_items cart). \<not> strict_eq (item_id item) (parseInt itemId)"
    using assms(2) by simp
  have "filter (\<lambda>item. \<not> strict_eq (item_id item) (parseInt itemId)) (cart_items cart) = cart_items cart"
    using none by simp
  then have "RemoveItem now carts userId itemId =
      (Inr (cart_items cart), carts(userId \<mapsto> cart\<lparr>cart_updatedAt := now\<rparr>))"
    using assms(1) by (simp add: RemoveItem_def)
  with none UpdateQuantity_no_item [of carts userId cart itemId now quantity] assms(1)
  show ?thesis by simp
qed

theorem C10_unparsable_itemId_witness:
  "parseInt ''abc'' = NaN \<and>
   UpdateQuantity 6 [''u1'' \<mapsto> cart_of ''u1'' [line_item (Some 7) (Some ''M'') None (Some 2)] 5]
     ''u1'' ''abc'' (Some 3) =
     (Inl ItemNotFound, [''u1'' \<mapsto> cart_of ''u1'' [line_item (Some 7) (Some ''M'') None (Some 2)] 5]) \<and>
   RemoveItem 6 [''u1'' \<mapsto> cart_of ''u1'' [line_item (Some 7) (Some ''M'') None (Some 2)] 5]
     ''u1'' ''abc'' =
     (Inr [line_item (Some 7) (Some ''M'') None (Some 2)],
      [''u1'' \<mapsto> cart_of ''u1'' [line_item (Some 7) (Some ''M'') None (Some 2)] 6])"
proof -
  let ?cart = "cart_of ''u1'' [line_item (Some 7) (Some ''M'') None (Some 2)] 5"
  have p: "parseInt ''abc'' = NaN"
    by (simp add: parseInt_def StrWhiteSpaceChar_def digit_value_def)
  have c: "[''u1'' \<mapsto> ?cart] ''u1'' = Some ?cart" by simp
  from C10_unparsable_itemId [where carts = "[''u1'' \<mapsto> ?cart]" and userId = "''u1''"
      and cart = ?cart and itemId = "''abc''" and now = 6 and quantity = "Some 3", OF c p] p
  show ?thesis
    by (simp add: cart_of_def)
qed

end
